theory Spec2Isabelle
  imports Complex_Main "HOL-Library.Sublist"
begin

section \<open>Sensor sampling loop: auto-calibration and deviation\<close>

text \<open>
  The component \<open>DeviceMonitor\<close> keeps the latest sensor frame in a mutable buffer
  (\<open>hardwareBufferRef.current\<close>). JavaScript numbers are modelled as exact reals:
  every comparison and every arithmetic step of the source is kept, rounding of
  IEEE doubles is not modelled. The field \<open>value\<close> of the source is called
  \<open>value'\<close> here.
\<close>

record HardwareState =
  topPoint :: real
  interpolated :: real
  baseline :: real
  value' :: real
  raw :: real

text \<open>The initial content of \<open>hardwareBufferRef\<close>.\<close>

definition initialHardwareState :: HardwareState where
  "initialHardwareState =
     \<lparr>topPoint = 0, interpolated = 0, baseline = 0, value' = 0, raw = 0\<rparr>"

text \<open>
  The block commented \<open>Auto-Calibration Logic\<close> of the sync interval: the two
  nested conditionals of the source, in the source's order.
\<close>

definition autoCalibrate :: "HardwareState \<Rightarrow> HardwareState" where
  "autoCalibrate hb =
     (let currentRaw = raw hb; currentBaseline = baseline hb in
      if currentBaseline = 0 \<and> currentRaw > 0 then hb\<lparr>baseline := currentRaw\<rparr>
      else if currentRaw > 0 then
        (let diff = \<bar>currentRaw - currentBaseline\<bar> in
         if diff < 10
         then hb\<lparr>baseline := currentBaseline * 0.99 + currentRaw * 0.01\<rparr>
         else hb)
      else hb)"

text \<open>The block commented \<open>Calculate Deviation\<close>: it reads the baseline just written.\<close>

definition calculateDeviation :: "HardwareState \<Rightarrow> HardwareState" where
  "calculateDeviation hb =
     (let deviation = \<bar>raw hb - baseline hb\<bar> in
      hb\<lparr>value' := of_int \<lfloor>deviation\<rfloor>\<rparr>)"

definition calibrationStep :: "HardwareState \<Rightarrow> HardwareState" where
  "calibrationStep hb = calculateDeviation (autoCalibrate hb)"

text \<open>
  The baseline rule as the specification words it, for comparison with the code:
  first non-zero sample initialises, small perturbations are smoothed, anything else
  leaves the baseline alone.
\<close>

definition spec_new_baseline :: "real \<Rightarrow> real \<Rightarrow> real" where
  "spec_new_baseline r b =
     (if b = 0 \<and> r > 0 then r
      else if r > 0 \<and> \<bar>r - b\<bar> < 10 then b * 0.99 + r * 0.01
      else b)"

text \<open>\<open>n\<close> consecutive ticks during which nothing else writes the buffer.\<close>

fun calibrationRun :: "nat \<Rightarrow> HardwareState \<Rightarrow> HardwareState" where
  "calibrationRun 0 hb = hb"
| "calibrationRun (Suc n) hb = calibrationRun n (calibrationStep hb)"

subsection \<open>Chart window\<close>

record ChartPoint =
  time :: real
  val :: real

text \<open>\<open>Array(50).fill(0).map((_, i) => ({ time: i, val: 0 }))\<close>\<close>

definition INITIAL_DATA :: "ChartPoint list" where
  "INITIAL_DATA = map (\<lambda>i. \<lparr>time = real i, val = 0\<rparr>) [0..<50]"

text \<open>
  The updater passed to \<open>setChartData\<close>: \<open>prev.slice(1)\<close> is \<open>drop 1\<close>; \<open>t\<close> is the
  value of \<open>timeRef.current\<close> and \<open>r\<close> the raw reading of the tick.
\<close>

definition setChartData :: "real \<Rightarrow> real \<Rightarrow> ChartPoint list \<Rightarrow> ChartPoint list" where
  "setChartData t r prev =
     (let newData = (if length prev > 50 then drop 1 prev else prev) in
      newData @ [\<lparr>time = t, val = r\<rparr>])"

text \<open>The chart after a sequence of ticks; \<open>timeRef\<close> counts up from \<open>t\<close>.\<close>

fun chartRun :: "real \<Rightarrow> real list \<Rightarrow> ChartPoint list \<Rightarrow> ChartPoint list" where
  "chartRun t [] prev = prev"
| "chartRun t (r # rs) prev = chartRun (t + 1) rs (setChartData t r prev)"

section \<open>Telemetry events and the health analysis window\<close>

text \<open>
  The shape of a telemetry event, as \<open>PlantHealthSimulator.generateReading\<close>
  builds it (the interface declarations of \<open>types/plantHealth\<close> are read off
  the object literals of that function).
\<close>

record EnvironmentData =
  temperature_c :: real
  humidity_pct :: real
  light_lux :: real

record SoilData =
  moisture_pct :: real
  soil_temp_c :: real
  water_tank_level_pct :: real

record VitalityData =
  capacitance :: real
  touch_events_last_min :: real
  leaf_color_index :: real
  growth_index :: real

record EventMeta =
  meta_device_id :: string
  meta_plant_type :: string
  location :: string
  firmware_version :: string

record PlantHealthEvent =
  device_id :: string
  plant_type :: string
  timestamp :: real
  environment :: EnvironmentData
  soil :: SoilData
  vitality :: VitalityData
  meta :: EventMeta

text \<open>
  \<open>VertexAIService.addHealthEventToWindow\<close>: \<open>push\<close> appends at the tail,
  \<open>shift\<close> removes the head. The window is the private field \<open>healthDataWindow\<close>,
  initially \<open>[]\<close> and reset to \<open>[]\<close> by \<open>clearWindow\<close>. The function never looks
  inside an event, so the element type is left open; the service uses it at
  \<^typ>\<open>PlantHealthEvent\<close>.
\<close>

definition addHealthEventToWindow :: "'e \<Rightarrow> 'e list \<Rightarrow> 'e list" where
  "addHealthEventToWindow event healthDataWindow =
     (let pushed = healthDataWindow @ [event] in
      if length pushed > 20 then tl pushed else pushed)"

text \<open>Adding a sequence of events, one call each, in arrival order.\<close>

fun addHealthEvents :: "'e list \<Rightarrow> 'e list \<Rightarrow> 'e list" where
  "addHealthEvents [] w = w"
| "addHealthEvents (e # es) w = addHealthEvents es (addHealthEventToWindow e w)"

section \<open>Touch-event debouncer\<close>









section \<open>Bio-synth audio engine\<close>

text \<open>
  A Web Audio parameter (\<open>AudioParam\<close>) is modelled by its intrinsic value and the list
  of automation events scheduled on it, oldest first. \<open>setTargetAtTime\<close> schedules an
  exponential approach to a target; \<open>cancelScheduledValues t\<close> removes the events
  scheduled at or after \<open>t\<close>.
\<close>

record AutomationEvent =
  target :: real
  startTime :: real
  timeConstant :: real

record AudioParam =
  paramValue :: real
  automation :: "AutomationEvent list"

definition cancelScheduledValues :: "real \<Rightarrow> AudioParam \<Rightarrow> AudioParam" where
  "cancelScheduledValues t p = p\<lparr>automation := filter (\<lambda>e. startTime e < t) (automation p)\<rparr>"

definition setTargetAtTime :: "real \<Rightarrow> real \<Rightarrow> real \<Rightarrow> AudioParam \<Rightarrow> AudioParam" where
  "setTargetAtTime v t tc p =
     p\<lparr>automation := automation p @ [\<lparr>target = v, startTime = t, timeConstant = tc\<rparr>]\<rparr>"

text \<open>The target the parameter is heading for: its latest automation event.\<close>

definition currentTarget :: "AudioParam \<Rightarrow> AutomationEvent option" where
  "currentTarget p = (if automation p = [] then None else Some (last (automation p)))"

record SynthParams =
  fmin :: real
  fmax :: real
  ampMax :: real
  glide :: real
  vibratoSpeed :: real
  vibratoDepth :: real
  brightness :: real

text \<open>
  The class \<open>BioSynth\<close>. \<open>ctx\<close> holds the audio clock (\<open>ctx.currentTime\<close>) once the
  graph exists; each node is represented by the one parameter the engine drives:
  \<open>masterGain.gain\<close>, \<open>osc1.frequency\<close>, \<open>osc2.frequency\<close>, \<open>lfoGain.gain\<close> and
  \<open>filter.frequency\<close> (called \<open>filterNode\<close> here). A node is \<open>None\<close> while it is \<open>null\<close>.
\<close>

record BioSynth =
  ctx :: "real option"
  masterGain :: "AudioParam option"
  osc1 :: "AudioParam option"
  osc2 :: "AudioParam option"
  lfoGain :: "AudioParam option"
  filterNode :: "AudioParam option"
  params :: SynthParams
  masterVolume :: real

definition newBioSynth :: BioSynth where
  "newBioSynth =
     \<lparr>ctx = None, masterGain = None, osc1 = None, osc2 = None, lfoGain = None,
      filterNode = None,
      params = \<lparr>fmin = 196, fmax = 1000, ampMax = 1.5, glide = 0.2, vibratoSpeed = 6.0,
                vibratoDepth = 4.0, brightness = 2000\<rparr>,
      masterVolume = 1.0\<rparr>"

text \<open>
  \<open>init\<close> builds the graph unless it exists; \<open>now\<close> is the clock of the new context and
  440 the default frequency of a fresh oscillator.
\<close>

definition init :: "real \<Rightarrow> BioSynth \<Rightarrow> BioSynth" where
  "init now s =
     (if ctx s \<noteq> None then s
      else s\<lparr>ctx := Some now,
             masterGain := Some \<lparr>paramValue = 0, automation = []\<rparr>,
             filterNode := Some \<lparr>paramValue = brightness (params s), automation = []\<rparr>,
             lfoGain := Some \<lparr>paramValue = vibratoDepth (params s), automation = []\<rparr>,
             osc1 := Some \<lparr>paramValue = 440, automation = []\<rparr>,
             osc2 := Some \<lparr>paramValue = 440, automation = []\<rparr>\<rparr>)"

text \<open>The normalised input of the open gate, clamped to the unit interval.\<close>

definition normalizedInput :: "real \<Rightarrow> real \<Rightarrow> real" where
  "normalizedInput rawv threshold =
     (let maxExpected = 120;
          inputRange = max 1 (maxExpected - threshold);
          n = (rawv - threshold) / inputRange
      in min 1.0 (max 0 n))"

text \<open>
  \<open>update(raw, threshold)\<close>. The first line of the source returns when the context, the
  master gain or an oscillator is missing; the filter and the vibrato gain are reached
  through optional chaining.
\<close>

definition update :: "real \<Rightarrow> real \<Rightarrow> BioSynth \<Rightarrow> BioSynth" where
  "update rawv threshold s =
     (case ctx s of None \<Rightarrow> s | Some now \<Rightarrow>
      case masterGain s of None \<Rightarrow> s | Some mg \<Rightarrow>
      case osc1 s of None \<Rightarrow> s | Some o1 \<Rightarrow>
      case osc2 s of None \<Rightarrow> s | Some o2 \<Rightarrow>
        (let p = params s in
         if rawv \<le> threshold
         then s\<lparr>masterGain := Some (setTargetAtTime 0 now 0.1 (cancelScheduledValues now mg))\<rparr>
         else
           (let n = normalizedInput rawv threshold;
                minVol = 0.2;
                maxVol = ampMax p;
                targetAmp = minVol + (n * (maxVol - minVol));
                targetFreq = fmin p + (n * (fmax p - fmin p));
                targetBrightness = 800 + (n * 3000);
                finalAmp = targetAmp * masterVolume s
            in s\<lparr>masterGain := Some (setTargetAtTime finalAmp now (glide p) mg),
                  osc1 := Some (setTargetAtTime targetFreq now 0.1 o1),
                  osc2 := Some (setTargetAtTime targetFreq now 0.1 o2),
                  filterNode := map_option (setTargetAtTime targetBrightness now 0.2) (filterNode s),
                  lfoGain := map_option (setTargetAtTime (vibratoDepth p + (n * 2)) now 0.5)
                               (lfoGain s)\<rparr>)))"

text \<open>The target of the output amplitude after a call, if the engine has a master gain.\<close>

definition amplitudeTarget :: "BioSynth \<Rightarrow> AutomationEvent option" where
  "amplitudeTarget s = (case masterGain s of None \<Rightarrow> None | Some mg \<Rightarrow> currentTarget mg)"

section \<open>Plant health simulator\<close>

text \<open>
  The class \<open>PlantHealthSimulator\<close>. Its private \<open>state\<close> object is the record
  \<open>SimState\<close> (the field \<open>capacitance\<close> of the state is \<open>capacitance'\<close> here, the
  field \<open>location\<close> of the simulator \<open>location'\<close>).
\<close>

record SimState =
  temperature :: real
  humidity :: real
  light :: real
  moisture :: real
  soilTemp :: real
  waterTank :: real
  capacitance' :: real
  touchEvents :: real
  leafColor :: real
  growthIndex :: real
  moistureTrend :: real
  tempTrend :: real

record PlantHealthSimulator =
  deviceId :: string
  plantType :: string
  location' :: string
  state :: SimState

text \<open>
  What the environment supplies to one call of \<open>generateReading\<close>: the results of the
  calls of \<open>Math.random()\<close> and of \<open>Date.now()\<close>, one field for each call site, in the
  order of the source.
\<close>

record Env =
  clockNow :: real
  rMoisture :: real
  rTrendChange :: real
  rTrendDir :: real
  rStabilize :: real
  clockTemp :: real
  rTemp :: real
  rSoilTemp :: real
  rHumidity :: real
  clockLight :: real
  rLight :: real
  rTouch :: real
  rTouchCap :: real
  rDecay :: real

text \<open>The five draws of the constructor.\<close>

record InitDraws =
  iTemperature :: real
  iHumidity :: real
  iLight :: real
  iMoisture :: real
  iSoilTemp :: real

definition newPlantHealthSimulator ::
  "string \<Rightarrow> string \<Rightarrow> string \<Rightarrow> InitDraws \<Rightarrow> PlantHealthSimulator" where
  "newPlantHealthSimulator dev ptype loc d =
     (let s0 = \<lparr>temperature = 22.0, humidity = 60.0, light = 8000, moisture = 45.0,
                soilTemp = 21.0, waterTank = 80.0, capacitance' = 0, touchEvents = 0,
                leafColor = 0.9, growthIndex = 1.0, moistureTrend = 0, tempTrend = 0\<rparr>;
          s1 = s0\<lparr>temperature := 20 + iTemperature d * 6\<rparr>;
          s2 = s1\<lparr>humidity := 45 + iHumidity d * 20\<rparr>;
          s3 = s2\<lparr>light := 5000 + iLight d * 10000\<rparr>;
          s4 = s3\<lparr>moisture := 30 + iMoisture d * 30\<rparr>;
          s5 = s4\<lparr>soilTemp := temperature s4 - 1 + iSoilTemp d * 2\<rparr>
      in \<lparr>deviceId = dev, plantType = ptype, location' = loc, state = s5\<rparr>)"

text \<open>\<open>Math.round\<close>: to the nearest integer, halves upwards.\<close>

definition Math_round :: "real \<Rightarrow> real" where
  "Math_round x = of_int \<lfloor>x + 1 / 2\<rfloor>"

text \<open>\<open>updateState\<close>, one definition for each commented block of the source.\<close>

definition updateMoisture :: "Env \<Rightarrow> SimState \<Rightarrow> SimState" where
  "updateMoisture e s =
     (if moistureTrend s \<le> 0
      then s\<lparr>moisture := max 0 (moisture s - (0.1 + rMoisture e * 0.2))\<rparr>
      else s\<lparr>moisture := min 100 (moisture s + (0.1 + rMoisture e * 0.2))\<rparr>)"

definition updateMoistureTrend :: "Env \<Rightarrow> SimState \<Rightarrow> SimState" where
  "updateMoistureTrend e s =
     (let s1 = (if rTrendChange e > 0.98
                then s\<lparr>moistureTrend := (if rTrendDir e > 0.5 then 1 else - 1)\<rparr>
                else s)
      in if rStabilize e > 0.95 then s1\<lparr>moistureTrend := 0\<rparr> else s1)"

definition updateClimate :: "Env \<Rightarrow> SimState \<Rightarrow> SimState" where
  "updateClimate e s =
     (let tempVariation = (sin (clockTemp e / 3600000) * 2) + (rTemp e - 0.5) * 0.5;
          s1 = s\<lparr>temperature := max 18 (min 30 (22 + tempVariation))\<rparr>;
          s2 = s1\<lparr>soilTemp := temperature s1 - 1 + (rSoilTemp e - 0.5) * 1\<rparr>;
          s3 = s2\<lparr>humidity :=
                    max 30 (min 80 (65 - (temperature s2 - 22) * 2 + (rHumidity e - 0.5) * 5))\<rparr>;
          lightVariation = max 0 (sin (clockLight e / 1800000) * 5000) + (rLight e - 0.5) * 1000
      in s3\<lparr>light := max 100 (min 20000 (10000 + lightVariation))\<rparr>)"

definition autoWatering :: "SimState \<Rightarrow> SimState" where
  "autoWatering s =
     (if moisture s < 30 \<and> waterTank s > 0
      then (let s1 = s\<lparr>waterTank := max 0 (waterTank s - 0.05)\<rparr> in
            if moisture s1 < 25
            then s1\<lparr>moisture := min 100 (moisture s1 + 0.5), moistureTrend := 1\<rparr>
            else s1)
      else s)"

definition updateLeafColor :: "SimState \<Rightarrow> SimState" where
  "updateLeafColor s =
     (if moisture s < 20 \<or> temperature s > 28 \<or> light s < 2000
      then s\<lparr>leafColor := max 0.5 (leafColor s - 0.001)\<rparr>
      else if moisture s > 30 \<and> temperature s < 26 \<and> light s > 5000
      then s\<lparr>leafColor := min 1.0 (leafColor s + 0.0005)\<rparr>
      else s)"

definition updateGrowth :: "SimState \<Rightarrow> SimState" where
  "updateGrowth s =
     (if moisture s > 30 \<and> moisture s < 70 \<and> temperature s > 20 \<and> temperature s < 26 \<and>
         light s > 5000
      then s\<lparr>growthIndex := min 1.2 (growthIndex s + 0.0001)\<rparr>
      else s)"

definition updateState :: "Env \<Rightarrow> SimState \<Rightarrow> SimState" where
  "updateState e s =
     updateGrowth (updateLeafColor (autoWatering
       (updateClimate e (updateMoistureTrend e (updateMoisture e s)))))"

text \<open>
  The two blocks of \<open>generateReading\<close> that write \<open>touchEvents\<close>: the capacitance block
  (\<open>capacitanceValue\<close> is \<open>None\<close> when the argument is \<open>undefined\<close>) and the decay.
\<close>

definition applyCapacitance :: "real option \<Rightarrow> Env \<Rightarrow> SimState \<Rightarrow> SimState" where
  "applyCapacitance capacitanceValue e s =
     (case capacitanceValue of
        Some c \<Rightarrow>
          (let s1 = s\<lparr>capacitance' := c\<rparr> in
           if c > 20 then s1\<lparr>touchEvents := min (touchEvents s1 + 1) 10\<rparr> else s1)
      | None \<Rightarrow>
          if rTouch e > 0.95
          then s\<lparr>capacitance' := 30 + rTouchCap e * 50,
                 touchEvents := min (touchEvents s + 1) 10\<rparr>
          else s\<lparr>capacitance' := max 0 (capacitance' s - 2)\<rparr>)"

definition decayTouchEvents :: "Env \<Rightarrow> SimState \<Rightarrow> SimState" where
  "decayTouchEvents e s =
     (if rDecay e > 0.7 then s\<lparr>touchEvents := max 0 (touchEvents s - 1)\<rparr> else s)"

definition generateReading ::
  "real option \<Rightarrow> Env \<Rightarrow> PlantHealthSimulator \<Rightarrow> PlantHealthEvent \<times> PlantHealthSimulator" where
  "generateReading capacitanceValue e sim =
     (let now = clockNow e;
          s = decayTouchEvents e (applyCapacitance capacitanceValue e (updateState e (state sim)));
          environment' =
            \<lparr>temperature_c = Math_round (temperature s * 10) / 10,
             humidity_pct = Math_round (humidity s * 10) / 10,
             light_lux = Math_round (light s)\<rparr>;
          soil' =
            \<lparr>moisture_pct = Math_round (moisture s * 10) / 10,
             soil_temp_c = Math_round (soilTemp s * 10) / 10,
             water_tank_level_pct = Math_round (waterTank s * 10) / 10\<rparr>;
          vitality' =
            \<lparr>capacitance = Math_round (capacitance' s),
             touch_events_last_min = touchEvents s,
             leaf_color_index = Math_round (leafColor s * 100) / 100,
             growth_index = Math_round (growthIndex s * 100) / 100\<rparr>
      in (\<lparr>device_id = deviceId sim, plant_type = plantType sim, timestamp = now,
           environment = environment', soil = soil', vitality = vitality',
           meta = \<lparr>meta_device_id = deviceId sim, meta_plant_type = plantType sim,
                   location = location' sim, firmware_version = ''1.0.0''\<rparr>\<rparr>,
          sim\<lparr>state := s\<rparr>))"

text \<open>The events of a sequence of calls on one simulator, and the simulator afterwards.\<close>

fun simulatorAfter ::
  "(real option \<times> Env) list \<Rightarrow> PlantHealthSimulator \<Rightarrow> PlantHealthSimulator" where
  "simulatorAfter [] sim = sim"
| "simulatorAfter ((c, e) # cs) sim = simulatorAfter cs (snd (generateReading c e sim))"

fun readings ::
  "(real option \<times> Env) list \<Rightarrow> PlantHealthSimulator \<Rightarrow> PlantHealthEvent list" where
  "readings [] sim = []"
| "readings ((c, e) # cs) sim =
     fst (generateReading c e sim) # readings cs (snd (generateReading c e sim))"

text \<open>The range claimed for the touch counter: an integer from 0 to 10.\<close>

definition touchOk :: "real \<Rightarrow> bool" where
  "touchOk x \<longleftrightarrow> x \<in> \<int> \<and> 0 \<le> x \<and> x \<le> 10"

text \<open>Whether a call counts a touch: a supplied capacitance above 20, or a simulated touch.\<close>

definition touched :: "real option \<Rightarrow> Env \<Rightarrow> bool" where
  "touched capacitanceValue e =
     (case capacitanceValue of Some c \<Rightarrow> c > 20 | None \<Rightarrow> rTouch e > 0.95)"

section \<open>Text generation: \<open>generatePlantResponse\<close> and \<open>generateCompanionResponse\<close>\<close>

subsection \<open>String operations of the source\<close>

text \<open>\<open>String.prototype.includes\<close>: the needle occurs as a contiguous substring.\<close>

fun includes' :: "string \<Rightarrow> string \<Rightarrow> bool" where
  "includes' [] needle = (needle = [])"
| "includes' (c # cs) needle = (prefix needle (c # cs) \<or> includes' cs needle)"

text \<open>\<open>toLowerCase\<close> on ASCII letters; other characters are kept.\<close>

definition lowerChar :: "char \<Rightarrow> char" where
  "lowerChar c =
     (case map_of (zip ''ABCDEFGHIJKLMNOPQRSTUVWXYZ'' ''abcdefghijklmnopqrstuvwxyz'') c of
        Some l \<Rightarrow> l | None \<Rightarrow> c)"

definition toLowerCase :: "string \<Rightarrow> string" where
  "toLowerCase s = map lowerChar s"

text \<open>\<open>trim\<close>: ASCII white space is removed at both ends.\<close>

definition isSpace :: "char \<Rightarrow> bool" where
  "isSpace c \<longleftrightarrow> c \<in> set [CHR '' '', CHR 0x09, CHR 0x0A, CHR 0x0B, CHR 0x0C, CHR 0x0D]"

definition trim :: "string \<Rightarrow> string" where
  "trim s = rev (dropWhile isSpace (rev (dropWhile isSpace s)))"

text \<open>\<open>slice(0, n)\<close> on a string.\<close>

definition slice0 :: "nat \<Rightarrow> string \<Rightarrow> string" where
  "slice0 n s = take n s"

text \<open>\<open>split\<close> at every character of a class, keeping empty pieces.\<close>

fun splitAt :: "(char \<Rightarrow> bool) \<Rightarrow> string \<Rightarrow> string \<Rightarrow> string list" where
  "splitAt d acc [] = [rev acc]"
| "splitAt d acc (c # cs) = (if d c then rev acc # splitAt d [] cs else splitAt d (c # acc) cs)"

text \<open>\<open>join\<close> with a separator.\<close>

fun join :: "string \<Rightarrow> string list \<Rightarrow> string" where
  "join sep [] = []"
| "join sep [x] = x"
| "join sep (x # y # ys) = x @ sep @ join sep (y # ys)"

text \<open>\<open>replace(/pat/g, '')\<close> for a literal pattern: every occurrence, left to right.\<close>

fun removeAll' :: "string \<Rightarrow> string \<Rightarrow> string" where
  "removeAll' pat [] = []"
| "removeAll' pat (c # cs) =
     (if pat \<noteq> [] \<and> prefix pat (c # cs)
      then removeAll' pat (drop (length pat - 1) cs)
      else c # removeAll' pat cs)"

text \<open>\<open>String(n)\<close> for a natural number.\<close>

definition digitChar :: "nat \<Rightarrow> char" where
  "digitChar d = ''0123456789'' ! d"

function showNat :: "nat \<Rightarrow> string" where
  "showNat n = (if n < 10 then [digitChar n] else showNat (n div 10) @ [digitChar (n mod 10)])"
  by pat_completeness auto
termination
  by (relation "measure id") auto

subsection \<open>Errors and external calls\<close>

text \<open>
  A thrown JavaScript \<open>Error\<close> object: its name, its message and its \<open>status\<close>
  property (\<open>None\<close> when absent).
\<close>

record JsError =
  errName :: string
  errMessage :: string
  errStatus :: "nat option"

definition newError :: "string \<Rightarrow> JsError" where
  "newError m = \<lparr>errName = ''Error'', errMessage = m, errStatus = None\<rparr>"

text \<open>
  \<open>error?.message || error?.toString() || String(error)\<close> for an \<open>Error\<close> object:
  the message, or, when the message is empty, what \<open>toString\<close> gives then, the name.
\<close>

definition errorText :: "JsError \<Rightarrow> string" where
  "errorText e = (if errMessage e \<noteq> [] then errMessage e else errName e)"

text \<open>What \<open>model.generateContent\<close> does for one model name: a text, or an exception.\<close>

datatype ModelOutcome = Generated string | Threw JsError

text \<open>
  What one retry attempt finds outside the program: the result of \<open>getApiKey()\<close>, the
  model names obtained from the listing request (\<open>[]\<close> when the listing fails) and the
  behaviour of each model. The prompt built from the system instruction and the history
  is an argument of the external call only and is not part of the model.
\<close>

record AttemptEnv =
  apiKey :: "string option"
  availableModels :: "string list"
  generateContent :: "string \<Rightarrow> ModelOutcome"

definition defaultModels :: "string list" where
  "defaultModels =
     [''gemini-1.5-flash-latest'', ''gemini-1.5-pro-latest'', ''gemini-1.5-flash'',
      ''gemini-1.5-pro'', ''gemini-pro-latest'', ''gemini-pro'']"

definition modelsToTry :: "AttemptEnv \<Rightarrow> string list" where
  "modelsToTry env =
     (if length (availableModels env) > 0
      then filter (\<lambda>m. includes' m ''gemini'') (availableModels env)
      else defaultModels)"

text \<open>
  The first two sentences of a generated text: \<open>split(/[.!?]+/)\<close> followed by the filter
  on non-blank pieces (the empty pieces between adjacent delimiters are blank).
\<close>

definition shortenText :: "string \<Rightarrow> string" where
  "shortenText text' =
     (let sentences = filter (\<lambda>s. length (trim s) > 0)
                        (splitAt (\<lambda>c. c \<in> set ''.!?'') [] text');
          shortText = trim (join ''. '' (take 2 sentences))
      in if shortText \<noteq> [] then shortText else text')"

text \<open>
  The loop over \<open>modelsToTry\<close>: the first non-empty text is returned, an exception is
  remembered and the next model tried; at the end the last exception is thrown, or a
  new \<open>Error\<close> when there was none.
\<close>

fun tryModels :: "(string \<Rightarrow> ModelOutcome) \<Rightarrow> string list \<Rightarrow> JsError option \<Rightarrow> JsError + string" where
  "tryModels gen [] lastError =
     Inl (case lastError of
            Some e \<Rightarrow> e
          | None \<Rightarrow> newError
              ''No available Gemini models found. Please check your API key and model access.'')"
| "tryModels gen (modelName # rest) lastError =
     (case gen modelName of
        Generated text' \<Rightarrow>
          if text' \<noteq> [] then Inr (shortenText text') else tryModels gen rest lastError
      | Threw sdkError \<Rightarrow> tryModels gen rest (Some sdkError))"

text \<open>The body of the \<open>try\<close> block of one attempt: a returned string or an exception.\<close>

definition attemptOnce :: "AttemptEnv \<Rightarrow> JsError + string" where
  "attemptOnce env =
     (case apiKey env of
        None \<Rightarrow> Inr ''(System: API Key missing. Please click the Lock icon in the top-right to enter your Google Gemini API Key.)''
      | Some k \<Rightarrow>
          if k = [] then Inr ''(System: API Key missing. Please click the Lock icon in the top-right to enter your Google Gemini API Key.)''
          else tryModels (generateContent env) (modelsToTry env) None)"

definition noRetry :: "string \<Rightarrow> bool" where
  "noRetry errorStr \<longleftrightarrow>
     includes' errorStr ''api key'' \<or> includes' errorStr ''invalid'' \<or>
     includes' errorStr ''401'' \<or> includes' errorStr ''403''"

definition retriable :: "string \<Rightarrow> bool" where
  "retriable errorStr \<longleftrightarrow>
     includes' errorStr ''rate limit'' \<or> includes' errorStr ''429'' \<or>
     includes' errorStr ''network'' \<or> includes' errorStr ''timeout''"

definition MAX_RETRIES :: nat where
  "MAX_RETRIES = 2"

text \<open>
  The retry loop from attempt number \<open>attempt\<close>: \<open>Inl\<close> is a value returned from inside
  the loop, \<open>Inr\<close> the content of \<open>lastError\<close> when the loop is left. \<open>world\<close> gives the
  environment of each attempt.
\<close>

function retryLoop :: "(nat \<Rightarrow> AttemptEnv) \<Rightarrow> nat \<Rightarrow> JsError option \<Rightarrow> string + JsError option" where
  "retryLoop world attempt lastError =
     (if attempt \<le> MAX_RETRIES then
        (case attemptOnce (world attempt) of
           Inr returned \<Rightarrow> Inl returned
         | Inl error \<Rightarrow>
             (let errorStr = toLowerCase (errorText error) in
              if noRetry errorStr then Inr (Some error)
              else if attempt < MAX_RETRIES \<and> retriable errorStr
              then retryLoop world (attempt + 1) (Some error)
              else Inr (Some error)))
      else Inr lastError)"
  by pat_completeness auto
termination
  by (relation "measure (\<lambda>(world, attempt, lastError). 3 - attempt)")
    (auto simp: MAX_RETRIES_def)

text \<open>The code after the loop: the synthetic message for the last error.\<close>

definition finalMessage :: "JsError option \<Rightarrow> string" where
  "finalMessage lastError =
     (let errorMessage = (case lastError of Some e \<Rightarrow> errorText e | None \<Rightarrow> ''Unknown error'');
          errorStr = toLowerCase errorMessage;
          status = (case lastError of Some e \<Rightarrow> errStatus e | None \<Rightarrow> None)
      in
      if includes' errorStr ''api key'' \<or> includes' errorStr ''invalid'' \<or>
         includes' errorStr ''401'' \<or> includes' errorStr ''403'' \<or>
         includes' errorStr ''unauthorized''
      then ''(System: Invalid or missing API Key. Please click the Lock icon in the top-right to enter your Google Gemini API Key.)''
      else if includes' errorStr ''quota'' \<or> includes' errorStr ''rate limit'' \<or>
         includes' errorStr ''429'' \<or> includes' errorStr ''resource exhausted''
      then ''(System: API quota exceeded. Please try again later or check your Gemini API quota.)''
      else if includes' errorStr ''not found'' \<or> includes' errorStr ''404'' \<or>
         includes' errorStr ''model''
      then ''(System: Model error - '' @ slice0 80 errorMessage @
           ''. Please check your API key and model access.)''
      else if includes' errorStr ''fetch'' \<or> includes' errorStr ''http'' \<or>
         (status \<noteq> None \<and> status \<noteq> Some 0)
      then
        (if status = Some 401 \<or> status = Some 403
         then ''(System: API Key is invalid or expired. Please get a new API key from https://aistudio.google.com/apikey)''
         else if status = Some 429
         then ''(System: Rate limit exceeded. Please wait a moment and try again.)''
         else ''(System: API Error ('' @
              (case status of None \<Rightarrow> ''unknown''
               | Some n \<Rightarrow> if n = 0 then ''unknown'' else showNat n) @
              '') - '' @ slice0 100 errorMessage @
              ''. Please check your API key at https://aistudio.google.com/apikey)'')
      else if (includes' errorStr ''network'' \<or> includes' errorStr ''fetch failed'' \<or>
               includes' errorStr ''timeout'') \<and>
              \<not> includes' errorStr ''api'' \<and> \<not> includes' errorStr ''model'' \<and>
              \<not> includes' errorStr ''key''
      then ''(System: Network error. Please check your internet connection and try again.)''
      else ''(System: '' @ slice0 120 errorMessage @ '')'')"

definition generatePlantResponse :: "(nat \<Rightarrow> AttemptEnv) \<Rightarrow> string" where
  "generatePlantResponse world =
     (case retryLoop world 0 None of
        Inl returned \<Rightarrow> returned
      | Inr lastError \<Rightarrow> finalMessage lastError)"

text \<open>
  \<open>VertexAIService.generateCompanionResponse\<close>. The result of \<open>callGeminiAPI\<close> is an
  exception, a JSON string, a JSON object whose fields \<open>text\<close> and \<open>response\<close> are
  strings or absent, or another JSON value (on which the member reads give
  \<open>undefined\<close> or throw inside the \<open>try\<close> block).
\<close>

datatype ApiOutcome =
  ApiThrew JsError
| ApiString string
| ApiObject "string option" "string option"
| ApiOther

definition companionFallback :: string where
  "companionFallback = ''I'm here and listening! How are you doing today?''"

definition cleanMarkdown :: "string \<Rightarrow> string" where
  "cleanMarkdown s = trim (removeAll' ''**'' (removeAll' ''```'' s))"

definition generateCompanionResponse :: "ApiOutcome \<Rightarrow> string" where
  "generateCompanionResponse outcome =
     (case outcome of
        ApiThrew e \<Rightarrow> companionFallback
      | ApiString r \<Rightarrow> cleanMarkdown (trim r)
      | ApiObject t r \<Rightarrow>
          cleanMarkdown
            (case t of
               Some a \<Rightarrow> if trim a \<noteq> [] then trim a
                         else (case r of Some b \<Rightarrow> if trim b \<noteq> [] then trim b
                                                   else companionFallback
                               | None \<Rightarrow> companionFallback)
             | None \<Rightarrow> (case r of Some b \<Rightarrow> if trim b \<noteq> [] then trim b
                                            else companionFallback
                         | None \<Rightarrow> companionFallback))
      | ApiOther \<Rightarrow> cleanMarkdown companionFallback)"

section \<open>Conversational interaction controller\<close>

text \<open>
  The state that \<open>processInteraction\<close> reads and writes, with the requests whose
  \<open>await\<close> has not returned yet. \<open>isProcessing\<close>, \<open>messages\<close>, \<open>interactionMode\<close> and
  \<open>currentHealthInsight\<close> are React state: a call of \<open>processInteraction\<close> does not read
  their current values but the values of the render that created the function it
  calls (\<open>RenderClosure\<close> below). \<open>isRecordingRef\<close> and \<open>valueRef\<close> are refs and are read
  at their current values. The field \<open>text\<close> of a chat message is \<open>text'\<close> here.
\<close>

datatype InteractionType = USER | SYSTEM | TOUCH

datatype Role = RoleUser | RoleModel

record ChatMessage =
  role :: Role
  text' :: string

datatype InteractionMode = TALK | MUSIC

record PlantDataPoint =
  pointTimestamp :: real
  pointCapacitance :: real
  sentiment :: string
  userMessage :: "string option"
  plantResponse :: "string option"

text \<open>The three prompt templates of \<open>processInteraction\<close>.\<close>

datatype Prompt = PlainText string | SystemEvent string | SensoryInput real

text \<open>
  A request between its call and the end of its \<open>finally\<close> block: first the awaited
  generation (\<open>Generating\<close>), then, in TALK mode, the awaited speech (\<open>Speaking\<close>). The
  values captured by the closure at the call are stored with it.
\<close>

datatype Phase = Generating | Speaking

record Pending =
  requestType :: InteractionType
  prompt :: Prompt
  currentValue :: real
  normalizedIntensity :: real
  historyForService :: "ChatMessage list"
  companion :: bool
  talkMode :: bool
  responseText :: "string option"
  phase :: Phase

record Controller =
  isProcessing :: bool
  messages :: "ChatMessage list"
  sessionData :: "PlantDataPoint list"
  inFlight :: "Pending list"
  interactionMode :: InteractionMode
  isRecordingRef :: bool
  valueRef :: real
  hasHealthInsight :: bool

definition initialController :: Controller where
  "initialController =
     \<lparr>isProcessing = False, messages = [], sessionData = [], inFlight = [],
      interactionMode = MUSIC, isRecordingRef = False, valueRef = 0,
      hasHealthInsight = False\<rparr>"

text \<open>
  The React state as one render sees it. Every render defines \<open>processInteraction\<close>
  anew over these constants. The send button calls the function of the latest render;
  the 500 ms timer of \<open>handleTouchStart\<close>, the 300 ms timer of the simulated touch, the
  speech-recognition callback and the session-start timer call the function of the
  render in which they were set up, whose constants may be out of date by then.
\<close>

record RenderClosure =
  seenProcessing :: bool
  seenMessages :: "ChatMessage list"
  seenHealthInsight :: bool
  seenMode :: InteractionMode


text \<open>
  \<open>processInteraction\<close> up to its first \<open>await\<close>, called through the closure \<open>cl\<close>;
  \<open>now\<close> is \<open>Date.now()\<close>. The guard of the first line tests the flag of the closure. A
  rejected call returns there and leaves the controller as it is.
\<close>

definition processInteraction ::
  "RenderClosure \<Rightarrow> string \<Rightarrow> InteractionType \<Rightarrow> real option \<Rightarrow> real \<Rightarrow>
   Controller \<Rightarrow> Controller" where
  "processInteraction cl txt type overrideValue now c =
     (if seenProcessing cl \<and> type \<noteq> SYSTEM then c
      else
        (let c1 = c\<lparr>isProcessing := True\<rparr>;
             cv = (case overrideValue of Some v \<Rightarrow> v | None \<Rightarrow> valueRef c);
             ni = min 100 (max 0 ((cv / 50) * 100));
             c2 = (if type = USER
                   then (let a = c1\<lparr>messages := messages c1 @ [\<lparr>role = RoleUser, text' = txt\<rparr>]\<rparr>
                         in if isRecordingRef a
                            then a\<lparr>sessionData := sessionData a @
                                   [\<lparr>pointTimestamp = now, pointCapacitance = cv,
                                     sentiment = ''User Input'', userMessage = Some txt,
                                     plantResponse = None\<rparr>]\<rparr>
                            else a)
                   else c1);
             p = \<lparr>requestType = type,
                  prompt = (case type of
                              SYSTEM \<Rightarrow> SystemEvent txt
                            | TOUCH \<Rightarrow> SensoryInput cv
                            | USER \<Rightarrow> PlainText txt),
                  currentValue = cv,
                  normalizedIntensity = ni,
                  historyForService = seenMessages cl,
                  companion = (seenHealthInsight cl \<and> type = USER),
                  talkMode = (seenMode cl = TALK),
                  responseText = None,
                  phase = Generating\<rparr>
         in c2\<lparr>inFlight := inFlight c2 @ [p]\<rparr>))"

text \<open>The end of a request: the recording entry, then the \<open>finally\<close> block.\<close>

definition finishInteraction :: "nat \<Rightarrow> real \<Rightarrow> Controller \<Rightarrow> Controller" where
  "finishInteraction i now c =
     (let p = inFlight c ! i;
          c1 = (if isRecordingRef c
                then c\<lparr>sessionData := sessionData c @
                       [\<lparr>pointTimestamp = now, pointCapacitance = currentValue p,
                         sentiment = ''Plant Response'', userMessage = None,
                         plantResponse = responseText p\<rparr>]\<rparr>
                else c)
      in c1\<lparr>inFlight := take i (inFlight c1) @ drop (Suc i) (inFlight c1),
             isProcessing := False\<rparr>)"

text \<open>What the outside world answers to one generation request.\<close>

record World =
  plantWorld :: "nat \<Rightarrow> AttemptEnv"
  companionOutcome :: ApiOutcome

text \<open>
  The awaited generation of request \<open>i\<close> returns: the response is appended as a model
  turn; in TALK mode the request goes on to await the speech, otherwise it ends.
\<close>

definition generationSettles :: "nat \<Rightarrow> World \<Rightarrow> real \<Rightarrow> Controller \<Rightarrow> Controller" where
  "generationSettles i w now c =
     (if i < length (inFlight c) \<and> phase (inFlight c ! i) = Generating
      then (let p = inFlight c ! i;
                r = (if companion p
                     then generateCompanionResponse (companionOutcome w)
                     else generatePlantResponse (plantWorld w));
                c1 = c\<lparr>messages := messages c @ [\<lparr>role = RoleModel, text' = r\<rparr>],
                       inFlight := (inFlight c)[i := p\<lparr>responseText := Some r\<rparr>]\<rparr>
            in if talkMode p
               then c1\<lparr>inFlight := (inFlight c1)[i := (inFlight c1 ! i)\<lparr>phase := Speaking\<rparr>]\<rparr>
               else finishInteraction i now c1)
      else c)"

text \<open>An exception inside the \<open>try\<close> block of request \<open>i\<close>: logged, then \<open>finally\<close>.\<close>

definition interactionThrows :: "nat \<Rightarrow> Controller \<Rightarrow> Controller" where
  "interactionThrows i c =
     (if i < length (inFlight c)
      then c\<lparr>inFlight := take i (inFlight c) @ drop (Suc i) (inFlight c),
             isProcessing := False\<rparr>
      else c)"

definition speechEnds :: "nat \<Rightarrow> real \<Rightarrow> Controller \<Rightarrow> Controller" where
  "speechEnds i now c =
     (if i < length (inFlight c) \<and> phase (inFlight c ! i) = Speaking
      then finishInteraction i now c
      else c)"

datatype Event =
  ProcessInteraction RenderClosure string InteractionType "real option" real
| GenerationSettles nat World real
| InteractionThrows nat
| SpeechEnds nat real

fun step :: "Event \<Rightarrow> Controller \<Rightarrow> Controller" where
  "step (ProcessInteraction cl txt type ov now) c = processInteraction cl txt type ov now c"
| "step (GenerationSettles i w now) c = generationSettles i w now c"
| "step (InteractionThrows i) c = interactionThrows i c"
| "step (SpeechEnds i now) c = speechEnds i now c"

fun runEvents :: "Event list \<Rightarrow> Controller \<Rightarrow> Controller" where
  "runEvents [] c = c"
| "runEvents (ev # evs) c = runEvents evs (step ev c)"





section \<open>The sampling tick as a whole\<close>

text \<open>
  The callback of the 33 ms interval: calibration and deviation on the buffer, the
  synth update in MUSIC mode (after copying the master volume), the publication of the
  buffer as \<open>arduinoState\<close> (with the baseline floored) and as \<open>valueRef.current\<close>, and
  one more chart point. \<open>mode\<close>, \<open>soundThreshold\<close> and \<open>masterVol\<close> are the React state
  the effect closes over.
\<close>

record SyncState =
  hardwareBuffer :: HardwareState
  arduinoState :: HardwareState
  valueRefCurrent :: real
  synthRef :: "BioSynth option"
  chartData :: "ChartPoint list"
  timeRef :: real

definition initialSyncState :: SyncState where
  "initialSyncState =
     \<lparr>hardwareBuffer = initialHardwareState, arduinoState = initialHardwareState,
      valueRefCurrent = 0, synthRef = Some newBioSynth, chartData = INITIAL_DATA,
      timeRef = 0\<rparr>"

definition syncTick :: "InteractionMode \<Rightarrow> real \<Rightarrow> real \<Rightarrow> SyncState \<Rightarrow> SyncState" where
  "syncTick mode soundThreshold masterVol st =
     (let hb = calibrationStep (hardwareBuffer st);
          sy = (if mode = MUSIC
                then map_option (\<lambda>s. update (raw hb) soundThreshold (s\<lparr>masterVolume := masterVol\<rparr>))
                       (synthRef st)
                else synthRef st)
      in st\<lparr>hardwareBuffer := hb,
            synthRef := sy,
            arduinoState :=
              \<lparr>topPoint = topPoint hb, interpolated = interpolated hb,
               baseline = of_int \<lfloor>baseline hb\<rfloor>, value' = value' hb, raw = raw hb\<rparr>,
            valueRefCurrent := value' hb,
            chartData := setChartData (timeRef st) (raw hb) (chartData st),
            timeRef := timeRef st + 1\<rparr>)"

section \<open>Calibration: results\<close>

lemma autoCalibrate_raw [simp]: "raw (autoCalibrate hb) = raw hb"
  by (simp add: autoCalibrate_def Let_def)

lemma calibrationStep_raw [simp]: "raw (calibrationStep hb) = raw hb"
  by (simp add: calibrationStep_def calculateDeviation_def Let_def)

lemma calibrationStep_baseline:
  "baseline (calibrationStep hb) = baseline (autoCalibrate hb)"
  by (simp add: calibrationStep_def calculateDeviation_def Let_def)

lemma autoCalibrate_baseline:
  "baseline (autoCalibrate hb) = spec_new_baseline (raw hb) (baseline hb)"
  by (simp add: autoCalibrate_def spec_new_baseline_def Let_def)

lemma syncTick_hardwareBuffer:
  "hardwareBuffer (syncTick mode th mv st) = calibrationStep (hardwareBuffer st)"
  by (simp add: syncTick_def Let_def)

lemma syncTick_published:
  "value' (arduinoState (syncTick mode th mv st)) = value' (calibrationStep (hardwareBuffer st))"
  by (simp add: syncTick_def Let_def)

lemma syncTick_chartData:
  "chartData (syncTick mode th mv st) =
     setChartData (timeRef st) (raw (hardwareBuffer st)) (chartData st)"
  by (simp add: syncTick_def Let_def)

text \<open>
  C1. On every tick with raw reading \<open>r\<close> and stored baseline \<open>b\<close> the new baseline is
  \<open>r\<close> when \<open>b = 0\<close> and \<open>r > 0\<close>, otherwise \<open>b * 0.99 + r * 0.01\<close> when \<open>r > 0\<close> and
  \<open>|r - b| < 10\<close>, otherwise \<open>b\<close>; and the published deviation is the floor of
  \<open>|r - new baseline|\<close>. Stated for the calibration step and for the whole tick, whose
  \<open>arduinoState\<close> is what the observers see.
\<close>

theorem calibration_step_matches_spec:
  "baseline (calibrationStep hb) = spec_new_baseline (raw hb) (baseline hb) \<and>
   value' (calibrationStep hb) =
     of_int \<lfloor>\<bar>raw hb - spec_new_baseline (raw hb) (baseline hb)\<bar>\<rfloor> \<and>
   baseline (hardwareBuffer (syncTick mode th mv st)) =
     spec_new_baseline (raw (hardwareBuffer st)) (baseline (hardwareBuffer st)) \<and>
   value' (arduinoState (syncTick mode th mv st)) =
     of_int \<lfloor>\<bar>raw (hardwareBuffer st) -
                spec_new_baseline (raw (hardwareBuffer st)) (baseline (hardwareBuffer st))\<bar>\<rfloor>"
  by (simp add: syncTick_hardwareBuffer syncTick_published calibrationStep_def
      calculateDeviation_def Let_def autoCalibrate_baseline)

theorem calibration_step_matches_spec_witness:
  "baseline (calibrationStep
      \<lparr>topPoint = 0, interpolated = 0, baseline = 50, value' = 0, raw = 55\<rparr>) = 50.05 \<and>
   value' (calibrationStep
      \<lparr>topPoint = 0, interpolated = 0, baseline = 50, value' = 0, raw = 55\<rparr>) = 4 \<and>
   value' (arduinoState (syncTick MUSIC 50 1.5
      (initialSyncState\<lparr>hardwareBuffer :=
         \<lparr>topPoint = 0, interpolated = 0, baseline = 50, value' = 0, raw = 55\<rparr>\<rparr>))) = 4"
  using calibration_step_matches_spec
    [of "\<lparr>topPoint = 0, interpolated = 0, baseline = 50, value' = 0, raw = 55\<rparr>"
        MUSIC 50 "1.5"
        "initialSyncState\<lparr>hardwareBuffer :=
           \<lparr>topPoint = 0, interpolated = 0, baseline = 50, value' = 0, raw = 55\<rparr>\<rparr>"]
  by (simp add: spec_new_baseline_def)

text \<open>
  C2 as stated fails on the first non-zero sample: with baseline 0 and raw 70 the
  deviation is at least 10, and the step moves the baseline to 70.
\<close>

theorem baseline_gate_counterexample:
  "10 \<le> \<bar>raw \<lparr>topPoint = 0, interpolated = 0, baseline = 0, value' = 0, raw = 70\<rparr>
        - baseline \<lparr>topPoint = 0, interpolated = 0, baseline = 0, value' = 0, raw = 70\<rparr>\<bar> \<and>
   baseline (calibrationStep
      \<lparr>topPoint = 0, interpolated = 0, baseline = 0, value' = 0, raw = 70\<rparr>)
   \<noteq> baseline \<lparr>topPoint = 0, interpolated = 0, baseline = 0, value' = 0, raw = 70\<rparr>"
  by (simp add: calibrationStep_def calculateDeviation_def autoCalibrate_def Let_def)

lemma touched_step:
  "raw hb = 70 \<Longrightarrow> baseline hb = 45 \<Longrightarrow> calibrationStep hb = hb\<lparr>value' := 25\<rparr>"
  by (simp add: calibrationStep_def calculateDeviation_def autoCalibrate_def Let_def)

lemma touched_run:
  "raw hb = 70 \<Longrightarrow> baseline hb = 45 \<Longrightarrow>
   calibrationRun n hb = (if n = 0 then hb else hb\<lparr>value' := 25\<rparr>)"
proof (induction n arbitrary: hb)
  case 0
  then show ?case by simp
next
  case (Suc n)
  have "calibrationRun n (hb\<lparr>value' := 25\<rparr>)
      = (if n = 0 then hb\<lparr>value' := 25\<rparr> else hb\<lparr>value' := 25\<rparr>\<lparr>value' := 25\<rparr>)"
    by (rule Suc.IH) (use Suc.prems in simp_all)
  then show ?case using Suc.prems by (simp add: touched_step)
qed

text \<open>
  C2, amended. On every tick on which \<open>|raw - baseline| \<ge> 10\<close>, and which is not the
  initialising tick (baseline 0 with a positive raw reading), the step leaves the
  baseline unchanged; with raw held at 70 and baseline 45 the baseline stays 45 and the
  published deviation is 25 after every tick.
\<close>

theorem baseline_gated_outside_initialisation:
  "(10 \<le> \<bar>raw hb - baseline hb\<bar> \<and> \<not> (baseline hb = 0 \<and> raw hb > 0)
      \<longrightarrow> baseline (calibrationStep hb) = baseline hb) \<and>
   (raw hb = 70 \<and> baseline hb = 45
      \<longrightarrow> baseline (calibrationRun n hb) = 45 \<and>
          (0 < n \<longrightarrow> value' (calibrationRun n hb) = 25))"
  by (auto simp add: calibrationStep_baseline autoCalibrate_baseline spec_new_baseline_def
      touched_run)

theorem baseline_gated_outside_initialisation_witness:
  "baseline (calibrationStep
      \<lparr>topPoint = 70, interpolated = 70, baseline = 45, value' = 0, raw = 70\<rparr>) = 45 \<and>
   baseline (calibrationRun 3
      \<lparr>topPoint = 70, interpolated = 70, baseline = 45, value' = 0, raw = 70\<rparr>) = 45 \<and>
   value' (calibrationRun 3
      \<lparr>topPoint = 70, interpolated = 70, baseline = 45, value' = 0, raw = 70\<rparr>) = 25"
  using baseline_gated_outside_initialisation
    [of "\<lparr>topPoint = 70, interpolated = 70, baseline = 45, value' = 0, raw = 70\<rparr>" 3]
  by simp

subsection \<open>Convergence under a constant reading\<close>

text \<open>An upper bound of \<open>0.99 ^ n\<close> by repeated squaring, in small numbers.\<close>

lemma sq_less: "0 \<le> (x::real) \<Longrightarrow> x < a \<Longrightarrow> x\<^sup>2 < a\<^sup>2"
  by (rule power_strict_mono) simp_all

lemma decay_10: "(0.99::real) ^ 10 < 0.905"
  by code_simp

lemma decay_20: "(0.99::real) ^ 20 < 0.82"
proof -
  have "(0.99::real) ^ 20 = ((0.99::real) ^ 10)\<^sup>2" by (simp flip: power_mult)
  also have "\<dots> < (0.905::real)\<^sup>2" by (rule sq_less [OF _ decay_10]) simp
  also have "\<dots> < 0.82" by (simp add: power2_eq_square)
  finally show ?thesis .
qed

lemma decay_40: "(0.99::real) ^ 40 < 0.68"
proof -
  have "(0.99::real) ^ 40 = ((0.99::real) ^ 20)\<^sup>2" by (simp flip: power_mult)
  also have "\<dots> < (0.82::real)\<^sup>2" by (rule sq_less [OF _ decay_20]) simp
  also have "\<dots> < 0.68" by (simp add: power2_eq_square)
  finally show ?thesis .
qed

lemma decay_80: "(0.99::real) ^ 80 < 0.47"
proof -
  have "(0.99::real) ^ 80 = ((0.99::real) ^ 40)\<^sup>2" by (simp flip: power_mult)
  also have "\<dots> < (0.68::real)\<^sup>2" by (rule sq_less [OF _ decay_40]) simp
  also have "\<dots> < 0.47" by (simp add: power2_eq_square)
  finally show ?thesis .
qed

lemma decay_160: "(0.99::real) ^ 160 < 0.23"
proof -
  have "(0.99::real) ^ 160 = ((0.99::real) ^ 80)\<^sup>2" by (simp flip: power_mult)
  also have "\<dots> < (0.47::real)\<^sup>2" by (rule sq_less [OF _ decay_80]) simp
  also have "\<dots> < 0.23" by (simp add: power2_eq_square)
  finally show ?thesis .
qed

lemma decay_320: "(0.99::real) ^ 320 < 0.06"
proof -
  have "(0.99::real) ^ 320 = ((0.99::real) ^ 160)\<^sup>2" by (simp flip: power_mult)
  also have "\<dots> < (0.23::real)\<^sup>2" by (rule sq_less [OF _ decay_160]) simp
  also have "\<dots> < 0.06" by (simp add: power2_eq_square)
  finally show ?thesis .
qed

lemma decay_480: "(0.99::real) ^ 480 < 1 / 10"
proof -
  have "(0.99::real) ^ 480 = (0.99::real) ^ 320 * (0.99::real) ^ 160"
    by (simp flip: power_add)
  also have "\<dots> < 0.06 * 0.23"
    by (rule mult_strict_mono [OF decay_320 decay_160]) simp_all
  also have "\<dots> < (1 / 10 :: real)" by simp
  finally show ?thesis .
qed

lemma decay_ge_500: "500 \<le> n \<Longrightarrow> (0.99::real) ^ n < 1 / 10"
proof -
  assume "500 \<le> n"
  then have "(0.99::real) ^ n \<le> (0.99::real) ^ 480"
    by (intro power_decreasing) simp_all
  then show ?thesis using decay_480 by (rule le_less_trans)
qed

text \<open>One tick contracts the distance to a constant positive reading by 0.99 at least.\<close>

lemma step_contract:
  assumes "raw hb > 0" "\<bar>raw hb - baseline hb\<bar> < 10 \<or> baseline hb = 0"
  shows "\<bar>raw hb - baseline (calibrationStep hb)\<bar> \<le> 0.99 * \<bar>raw hb - baseline hb\<bar>"
    and "\<bar>raw hb - baseline (calibrationStep hb)\<bar> < 10"
  using assms
  by (auto simp add: calibrationStep_baseline autoCalibrate_baseline spec_new_baseline_def
      abs_if split: if_splits)

lemma run_contract:
  "raw hb > 0 \<Longrightarrow> \<bar>raw hb - baseline hb\<bar> < 10 \<Longrightarrow>
   \<bar>raw hb - baseline (calibrationRun n hb)\<bar> \<le> 0.99 ^ n * \<bar>raw hb - baseline hb\<bar>
   \<and> raw (calibrationRun n hb) = raw hb"
proof (induction n arbitrary: hb)
  case 0
  then show ?case by simp
next
  case (Suc n)
  let ?h = "calibrationStep hb"
  have r: "raw ?h = raw hb" by simp
  have c: "\<bar>raw hb - baseline ?h\<bar> \<le> 0.99 * \<bar>raw hb - baseline hb\<bar>"
    and d: "\<bar>raw hb - baseline ?h\<bar> < 10"
    using step_contract [of hb] Suc.prems by simp_all
  have ih: "\<bar>raw ?h - baseline (calibrationRun n ?h)\<bar> \<le> 0.99 ^ n * \<bar>raw ?h - baseline ?h\<bar>
     \<and> raw (calibrationRun n ?h) = raw ?h"
    by (rule Suc.IH) (use Suc.prems d in simp_all)
  have "\<bar>raw hb - baseline (calibrationRun (Suc n) hb)\<bar>
      \<le> 0.99 ^ n * \<bar>raw hb - baseline ?h\<bar>"
    using ih by (simp only: calibrationRun.simps r)
  also have "\<dots> \<le> 0.99 ^ n * (0.99 * \<bar>raw hb - baseline hb\<bar>)"
    by (rule mult_left_mono [OF c]) simp
  also have "\<dots> = 0.99 ^ Suc n * \<bar>raw hb - baseline hb\<bar>"
    by (simp only: power_Suc2 mult.assoc)
  finally have "\<bar>raw hb - baseline (calibrationRun (Suc n) hb)\<bar>
      \<le> 0.99 ^ Suc n * \<bar>raw hb - baseline hb\<bar>" .
  moreover have "raw (calibrationRun (Suc n) hb) = raw hb"
    using ih by (simp only: calibrationRun.simps r)
  ultimately show ?case by (rule conjI)
qed

text \<open>
  C3. For every starting baseline \<open>b\<close> and constant raw value \<open>R > 0\<close> with
  \<open>|R - b| < 10\<close> or \<open>b = 0\<close>, after more than 500 consecutive calibration steps with
  raw = \<open>R\<close> the baseline lies within 1 unit of \<open>R\<close>.
\<close>

theorem baseline_converges:
  assumes "raw hb = R" "R > 0" "\<bar>R - baseline hb\<bar> < 10 \<or> baseline hb = 0" "n > 500"
  shows "\<bar>baseline (calibrationRun n hb) - R\<bar> < 1"
proof -
  obtain m where n: "n = Suc m" and m: "500 \<le> m"
    using assms(4) by (cases n) simp_all
  let ?h = "calibrationStep hb"
  have d: "\<bar>raw ?h - baseline ?h\<bar> < 10" and p: "raw ?h > 0"
    using step_contract(2) [of hb] assms by simp_all
  have "\<bar>raw ?h - baseline (calibrationRun m ?h)\<bar> \<le> 0.99 ^ m * \<bar>raw ?h - baseline ?h\<bar>"
    using run_contract [OF p d, of m] by simp
  also have "\<dots> \<le> 0.99 ^ m * 10"
    by (rule mult_left_mono) (use d in simp_all)
  also have "\<dots> < 1"
    using decay_ge_500 [OF m] by simp
  finally show ?thesis
    using assms(1) by (simp add: n abs_minus_commute)
qed

theorem baseline_converges_witness:
  "\<bar>baseline (calibrationRun 501
      \<lparr>topPoint = 0, interpolated = 0, baseline = 45, value' = 0, raw = 50\<rparr>) - 50\<bar> < 1"
  using baseline_converges
    [of "\<lparr>topPoint = 0, interpolated = 0, baseline = 45, value' = 0, raw = 50\<rparr>" 50 501]
  by simp

section \<open>Sliding windows: results\<close>

lemma addHealthEventToWindow_drop:
  assumes "length w \<le> 20"
  shows "addHealthEventToWindow e w = drop (length (w @ [e]) - 20) (w @ [e])"
proof (cases "length w < 20")
  case True
  then show ?thesis by (simp add: addHealthEventToWindow_def Let_def)
next
  case False
  with assms have l: "length w = 20" by simp
  have "tl (w @ [e]) = drop 1 (w @ [e])" by (simp only: One_nat_def drop_Suc drop_0)
  then show ?thesis using l by (simp add: addHealthEventToWindow_def Let_def)
qed

lemma addHealthEvents_drop:
  "length w \<le> 20 \<Longrightarrow> addHealthEvents es w = drop (length (w @ es) - 20) (w @ es)"
proof (induction es arbitrary: w)
  case Nil
  then show ?case by simp
next
  case (Cons e es)
  let ?w = "addHealthEventToWindow e w"
  have w: "?w = drop (length (w @ [e]) - 20) (w @ [e])"
    using Cons.prems by (rule addHealthEventToWindow_drop)
  then have len: "length ?w \<le> 20" by simp
  have "addHealthEvents es ?w = drop (length (?w @ es) - 20) (?w @ es)"
    using len by (rule Cons.IH)
  also have "\<dots> = drop (length (w @ e # es) - 20) (w @ e # es)"
  proof (cases "length w < 20")
    case True
    then show ?thesis by (simp add: w)
  next
    case False
    with Cons.prems have l: "length w = 20" by simp
    then have ne: "w \<noteq> []" by auto
    have t: "?w = tl w @ [e]"
      using l ne by (simp add: addHealthEventToWindow_def Let_def)
    have "drop (length (w @ e # es) - 20) (w @ e # es) = drop (Suc (length es)) (w @ e # es)"
      using l by simp
    also have "\<dots> = drop (length es) (tl (w @ e # es))"
      by (simp only: drop_Suc)
    also have "\<dots> = drop (length es) (tl w @ e # es)"
      using ne by simp
    finally show ?thesis using l ne by (simp add: t)
  qed
  finally show ?case by simp
qed

text \<open>
  C7. The health analysis window never holds more than 20 events: an added event goes to
  the tail and, when the length would exceed 20, the head is evicted; so a window filled
  from empty holds the latest 20 events in arrival order, and after 25 events exactly
  the last 20 of them.
\<close>

theorem health_window_keeps_latest_20:
  "(length w \<le> 20 \<longrightarrow>
      length (addHealthEventToWindow e w) \<le> 20 \<and>
      addHealthEventToWindow e w = (if length w < 20 then w @ [e] else tl w @ [e])) \<and>
   length (addHealthEvents es []) \<le> 20 \<and>
   addHealthEvents es [] = drop (length es - 20) es \<and>
   (length es = 25 \<longrightarrow> addHealthEvents es [] = drop 5 es)"
proof -
  have a: "addHealthEvents es [] = drop (length es - 20) es"
    using addHealthEvents_drop [of "[]" es] by simp
  have b: "length w \<le> 20 \<Longrightarrow>
      addHealthEventToWindow e w = (if length w < 20 then w @ [e] else tl w @ [e])"
    by (cases w) (simp_all add: addHealthEventToWindow_def Let_def)
  show ?thesis using a b by (auto simp: addHealthEventToWindow_drop)
qed

theorem health_window_keeps_latest_20_witness:
  "addHealthEventToWindow (3::nat) [1, 2] = [1, 2, 3] \<and>
   addHealthEvents
     [1, 2, 3, 4, 5, 6, 7, 8, 9, 10, 11, 12, 13, 14, 15, 16, 17, 18, 19, 20,
      21, 22, 23, 24, 25 :: nat] []
   = [6, 7, 8, 9, 10, 11, 12, 13, 14, 15, 16, 17, 18, 19, 20, 21, 22, 23, 24, 25]"
  using health_window_keeps_latest_20
    [of "[1, 2 :: nat]" 3
        "[1, 2, 3, 4, 5, 6, 7, 8, 9, 10, 11, 12, 13, 14, 15, 16, 17, 18, 19, 20,
          21, 22, 23, 24, 25 :: nat]"]
  by simp

lemma setChartData_length:
  "length (setChartData t r prev) = (if length prev > 50 then length prev else length prev + 1)"
  by (cases prev) (simp_all add: setChartData_def Let_def)

lemma chartRun_length:
  "length prev \<le> 51 \<Longrightarrow> length (chartRun t rs prev) \<le> 51"
  by (induction rs arbitrary: t prev) (simp_all add: setChartData_length)

text \<open>
  C9. The claim caps the chart at 50 points. The chart starts with the 50 points of
  \<open>INITIAL_DATA\<close> and the updater evicts only when the previous array already holds
  more than 50 points, so the first tick leaves 51 points and the next tick keeps 51.
\<close>

theorem chart_first_tick_holds_51:
  "length INITIAL_DATA = 50 \<and>
   length (chartData (syncTick MUSIC 50 1.5 initialSyncState)) = 51 \<and>
   length (chartData (syncTick MUSIC 50 1.5 (syncTick MUSIC 50 1.5 initialSyncState))) = 51 \<and>
   length (setChartData 0 45 INITIAL_DATA) = 51 \<and>
   length (setChartData 1 45 (setChartData 0 45 INITIAL_DATA)) = 51"
  by (simp add: syncTick_chartData setChartData_length INITIAL_DATA_def initialSyncState_def)

section \<open>Touch-event debouncer: results\<close>













section \<open>Bio-synth audio engine: results\<close>

lemma currentTarget_set [simp]:
  "currentTarget (setTargetAtTime v t tc p) = Some \<lparr>target = v, startTime = t, timeConstant = tc\<rparr>"
  by (simp add: currentTarget_def setTargetAtTime_def)

lemma update_closed:
  assumes "ctx s = Some now" "masterGain s = Some mg" "osc1 s = Some o1" "osc2 s = Some o2"
    and "rawv \<le> threshold"
  shows "update rawv threshold s =
           s\<lparr>masterGain := Some (setTargetAtTime 0 now 0.1 (cancelScheduledValues now mg))\<rparr>"
  using assms by (simp add: update_def)

lemma update_open_amplitude:
  assumes "ctx s = Some now" "masterGain s = Some mg" "osc1 s = Some o1" "osc2 s = Some o2"
    and "rawv > threshold"
  shows "amplitudeTarget (update rawv threshold s) =
           Some \<lparr>target = (0.2 + normalizedInput rawv threshold * (ampMax (params s) - 0.2))
                            * masterVolume s,
                 startTime = now, timeConstant = glide (params s)\<rparr>"
  using assms by (simp add: update_def amplitudeTarget_def Let_def)

lemma normalized_90_50: "normalizedInput 90 50 = 4 / 7"
  by (simp add: normalizedInput_def Let_def)

lemma between_90_50:
  assumes "0 < mv" "(0.2::real) < amax"
  shows "0.2 * mv < (0.2 + 4 / 7 * (amax - 0.2)) * mv"
    and "(0.2 + 4 / 7 * (amax - 0.2)) * mv < amax * mv"
proof -
  have "0.2 < 0.2 + 4 / 7 * (amax - 0.2)" using assms(2) by simp
  then show "0.2 * mv < (0.2 + 4 / 7 * (amax - 0.2)) * mv"
    using assms(1) by (rule mult_strict_right_mono)
  have "0.2 + 4 / 7 * (amax - 0.2) < amax" using assms(2) by (simp add: field_simps)
  then show "(0.2 + 4 / 7 * (amax - 0.2)) * mv < amax * mv"
    using assms(1) by (rule mult_strict_right_mono)
qed

text \<open>
  C5. On an initialised engine, \<open>update(raw, threshold)\<close> with \<open>raw \<le> threshold\<close> sets
  the amplitude target to 0 with time constant 0.1 and changes nothing else; with
  \<open>raw > threshold\<close> the amplitude target is
  \<open>(minVol + normalized * (ampMax - minVol)) * masterVolume\<close>, where \<open>minVol = 0.2\<close> and
  \<open>normalized\<close> is \<open>(raw - threshold) / max(1, 120 - threshold)\<close> clamped to \<open>[0, 1]\<close>. So
  \<open>update(10, 50)\<close> heads for 0, and \<open>update(90, 50)\<close> for a value strictly between
  \<open>minVol * masterVolume\<close> and \<open>ampMax * masterVolume\<close> (for a positive master volume
  and \<open>ampMax\<close> above \<open>minVol\<close>, as the engine has them: the volume slider ranges over
  0.5 to 3.0 and \<open>ampMax\<close> is 1.5).
\<close>

theorem update_gate_and_amplitude:
  assumes "ctx s = Some now" "masterGain s = Some mg" "osc1 s = Some o1" "osc2 s = Some o2"
  shows "(rawv \<le> threshold \<longrightarrow>
            update rawv threshold s =
              s\<lparr>masterGain := Some (setTargetAtTime 0 now 0.1 (cancelScheduledValues now mg))\<rparr> \<and>
            amplitudeTarget (update rawv threshold s) =
              Some \<lparr>target = 0, startTime = now, timeConstant = 0.1\<rparr>) \<and>
         (rawv > threshold \<longrightarrow>
            amplitudeTarget (update rawv threshold s) =
              Some \<lparr>target =
                      (0.2 + min 1 (max 0 ((rawv - threshold) / max 1 (120 - threshold)))
                               * (ampMax (params s) - 0.2)) * masterVolume s,
                    startTime = now, timeConstant = glide (params s)\<rparr>) \<and>
         map_option target (amplitudeTarget (update 10 50 s)) = Some 0 \<and>
         (0 < masterVolume s \<and> 0.2 < ampMax (params s) \<longrightarrow>
            (\<exists>a. map_option target (amplitudeTarget (update 90 50 s)) = Some a \<and>
                 0.2 * masterVolume s < a \<and> a < ampMax (params s) * masterVolume s))"
proof -
  have closed: "rawv \<le> threshold \<Longrightarrow>
      update rawv threshold s =
        s\<lparr>masterGain := Some (setTargetAtTime 0 now 0.1 (cancelScheduledValues now mg))\<rparr>"
    for rawv threshold
    using assms by (rule update_closed)
  have c1: "rawv \<le> threshold \<Longrightarrow> amplitudeTarget (update rawv threshold s) =
              Some \<lparr>target = 0, startTime = now, timeConstant = 0.1\<rparr>" for rawv threshold
    by (simp add: closed amplitudeTarget_def)
  have o: "rawv > threshold \<Longrightarrow> amplitudeTarget (update rawv threshold s) =
           Some \<lparr>target = (0.2 + normalizedInput rawv threshold * (ampMax (params s) - 0.2))
                            * masterVolume s,
                 startTime = now, timeConstant = glide (params s)\<rparr>" for rawv threshold
    using assms by (rule update_open_amplitude)
  have t10: "map_option target (amplitudeTarget (update 10 50 s)) = Some 0"
    using c1 [of 10 50] by simp
  have t90: "map_option target (amplitudeTarget (update 90 50 s)) =
      Some ((0.2 + 4 / 7 * (ampMax (params s) - 0.2)) * masterVolume s)"
    using o [of 50 90] by (simp add: normalized_90_50)
  have b: "0 < masterVolume s \<and> 0.2 < ampMax (params s) \<longrightarrow>
            (\<exists>a. map_option target (amplitudeTarget (update 90 50 s)) = Some a \<and>
                 0.2 * masterVolume s < a \<and> a < ampMax (params s) * masterVolume s)"
    unfolding t90 using between_90_50 [of "masterVolume s" "ampMax (params s)"] by blast
  have o': "rawv > threshold \<longrightarrow>
            amplitudeTarget (update rawv threshold s) =
              Some \<lparr>target =
                      (0.2 + min 1 (max 0 ((rawv - threshold) / max 1 (120 - threshold)))
                               * (ampMax (params s) - 0.2)) * masterVolume s,
                    startTime = now, timeConstant = glide (params s)\<rparr>"
    using o [of threshold rawv] by (simp add: normalizedInput_def Let_def)
  show ?thesis using closed c1 o' t10 b by blast
qed

theorem update_gate_and_amplitude_witness:
  "map_option target (amplitudeTarget (update 10 50 (init 0 newBioSynth))) = Some 0 \<and>
   map_option target (amplitudeTarget (update 90 50 (init 0 newBioSynth))) = Some (33 / 35) \<and>
   0.2 * masterVolume (init 0 newBioSynth) < (33 / 35 :: real) \<and>
   (33 / 35 :: real) < ampMax (params (init 0 newBioSynth)) * masterVolume (init 0 newBioSynth)"
  using update_gate_and_amplitude
    [of "init 0 newBioSynth" 0 "\<lparr>paramValue = 0, automation = []\<rparr>"
        "\<lparr>paramValue = 440, automation = []\<rparr>" "\<lparr>paramValue = 440, automation = []\<rparr>" 90 50]
  by (simp add: init_def newBioSynth_def)

section \<open>Plant health simulator: results\<close>

lemma updateMoisture_touchEvents: "touchEvents (updateMoisture e s) = touchEvents s"
  by (simp add: updateMoisture_def)

lemma updateMoistureTrend_touchEvents: "touchEvents (updateMoistureTrend e s) = touchEvents s"
  by (simp add: updateMoistureTrend_def Let_def)

lemma updateClimate_touchEvents: "touchEvents (updateClimate e s) = touchEvents s"
  by (simp add: updateClimate_def Let_def)

lemma autoWatering_touchEvents: "touchEvents (autoWatering s) = touchEvents s"
  by (simp add: autoWatering_def Let_def)

lemma updateLeafColor_touchEvents: "touchEvents (updateLeafColor s) = touchEvents s"
  by (simp add: updateLeafColor_def)

lemma updateGrowth_touchEvents: "touchEvents (updateGrowth s) = touchEvents s"
  by (simp add: updateGrowth_def)

lemma updateState_touchEvents [simp]: "touchEvents (updateState e s) = touchEvents s"
  by (simp only: updateState_def updateGrowth_touchEvents updateLeafColor_touchEvents
      autoWatering_touchEvents updateClimate_touchEvents updateMoistureTrend_touchEvents
      updateMoisture_touchEvents)

lemma applyCapacitance_touch:
  "touchOk (touchEvents s) \<Longrightarrow>
   touchOk (touchEvents (applyCapacitance c e s)) \<and>
   touchEvents (applyCapacitance c e s) \<le> touchEvents s + 1 \<and>
   touchEvents s \<le> touchEvents (applyCapacitance c e s)"
  by (cases c) (auto simp add: applyCapacitance_def touchOk_def Let_def min_def)

lemma decayTouchEvents_touch:
  "touchOk (touchEvents s) \<Longrightarrow>
   touchOk (touchEvents (decayTouchEvents e s)) \<and>
   touchEvents (decayTouchEvents e s) \<le> touchEvents s"
  by (auto simp add: decayTouchEvents_def touchOk_def max_def)

lemma applyCapacitance_touchEvents:
  "touchEvents (applyCapacitance c e s) =
     (if touched c e then min (touchEvents s + 1) 10 else touchEvents s)"
  by (cases c) (simp_all add: applyCapacitance_def touched_def Let_def)

lemma decayTouchEvents_touchEvents:
  "touchEvents (decayTouchEvents e s) =
     (if rDecay e > 0.7 then max 0 (touchEvents s - 1) else touchEvents s)"
  by (simp add: decayTouchEvents_def)

lemma generateReading_state:
  "state (snd (generateReading c e sim)) =
     decayTouchEvents e (applyCapacitance c e (updateState e (state sim)))"
  by (simp add: generateReading_def Let_def)

lemma generateReading_event_touch:
  "touch_events_last_min (vitality (fst (generateReading c e sim))) =
     touchEvents (state (snd (generateReading c e sim)))"
  by (simp add: generateReading_def Let_def)

lemma generateReading_touchEvents:
  "touchEvents (state (snd (generateReading c e sim))) =
     (let t1 = (if touched c e then min (touchEvents (state sim) + 1) 10
                else touchEvents (state sim))
      in if rDecay e > 0.7 then max 0 (t1 - 1) else t1)"
  by (simp add: generateReading_state decayTouchEvents_touchEvents
      applyCapacitance_touchEvents Let_def)

lemma generateReading_touchOk:
  assumes "touchOk (touchEvents (state sim))"
  shows "touchOk (touchEvents (state (snd (generateReading c e sim))))"
    and "touchEvents (state (snd (generateReading c e sim))) \<le> touchEvents (state sim) + 1"
proof -
  let ?s = "applyCapacitance c e (updateState e (state sim))"
  have a: "touchOk (touchEvents ?s) \<and> touchEvents ?s \<le> touchEvents (updateState e (state sim)) + 1
      \<and> touchEvents (updateState e (state sim)) \<le> touchEvents ?s"
    by (rule applyCapacitance_touch) (use assms in simp)
  have d: "touchOk (touchEvents (decayTouchEvents e ?s)) \<and>
      touchEvents (decayTouchEvents e ?s) \<le> touchEvents ?s"
    by (rule decayTouchEvents_touch) (use a in simp)
  show "touchOk (touchEvents (state (snd (generateReading c e sim))))"
    using d by (simp add: generateReading_state)
  show "touchEvents (state (snd (generateReading c e sim))) \<le> touchEvents (state sim) + 1"
    using a d by (simp add: generateReading_state)
qed

lemma readings_touchOk:
  "touchOk (touchEvents (state sim)) \<Longrightarrow>
   \<forall>ev\<in>set (readings cs sim). touchOk (touch_events_last_min (vitality ev))"
proof (induction cs arbitrary: sim)
  case Nil
  then show ?case by simp
next
  case (Cons a cs)
  obtain c e where a: "a = (c, e)" by (cases a)
  have ok: "touchOk (touchEvents (state (snd (generateReading c e sim))))"
    using Cons.prems by (rule generateReading_touchOk(1))
  have "\<forall>ev\<in>set (readings cs (snd (generateReading c e sim))).
      touchOk (touch_events_last_min (vitality ev))"
    using ok by (rule Cons.IH)
  then show ?case using ok by (simp add: a generateReading_event_touch)
qed

lemma newPlantHealthSimulator_touchEvents:
  "touchEvents (state (newPlantHealthSimulator dev ptype loc d)) = 0"
  by (simp add: newPlantHealthSimulator_def Let_def)

text \<open>
  C10. In every event produced by \<open>generateReading\<close> on a simulator built by the
  constructor, \<open>vitality.touch_events_last_min\<close> is an integer from 0 to 10. One reading
  adds at most 1, capped at 10, exactly when the supplied capacitance exceeds 20 or a
  simulated touch occurs, and the decay step subtracts 1 without going below 0.
\<close>

theorem touch_events_between_0_and_10:
  "(\<forall>ev\<in>set (readings cs (newPlantHealthSimulator dev ptype loc d)).
      touch_events_last_min (vitality ev) \<in> \<int> \<and>
      0 \<le> touch_events_last_min (vitality ev) \<and>
      touch_events_last_min (vitality ev) \<le> 10) \<and>
   touch_events_last_min (vitality (fst (generateReading c e sim))) =
     (let t1 = (if touched c e then min (touchEvents (state sim) + 1) 10
                else touchEvents (state sim))
      in if rDecay e > 0.7 then max 0 (t1 - 1) else t1) \<and>
   (touchOk (touchEvents (state sim)) \<longrightarrow>
      touch_events_last_min (vitality (fst (generateReading c e sim)))
        \<le> touchEvents (state sim) + 1)"
proof -
  have "touchOk (touchEvents (state (newPlantHealthSimulator dev ptype loc d)))"
    by (simp add: newPlantHealthSimulator_touchEvents touchOk_def)
  then have "\<forall>ev\<in>set (readings cs (newPlantHealthSimulator dev ptype loc d)).
      touchOk (touch_events_last_min (vitality ev))"
    by (rule readings_touchOk)
  then have a: "\<forall>ev\<in>set (readings cs (newPlantHealthSimulator dev ptype loc d)).
      touch_events_last_min (vitality ev) \<in> \<int> \<and>
      0 \<le> touch_events_last_min (vitality ev) \<and>
      touch_events_last_min (vitality ev) \<le> 10"
    by (simp add: touchOk_def)
  have b: "touch_events_last_min (vitality (fst (generateReading c e sim))) =
     (let t1 = (if touched c e then min (touchEvents (state sim) + 1) 10
                else touchEvents (state sim))
      in if rDecay e > 0.7 then max 0 (t1 - 1) else t1)"
    by (simp only: generateReading_event_touch generateReading_touchEvents)
  have c: "touchOk (touchEvents (state sim)) \<longrightarrow>
      touch_events_last_min (vitality (fst (generateReading c e sim)))
        \<le> touchEvents (state sim) + 1"
    using generateReading_touchOk(2) [of sim c e]
    by (simp add: generateReading_event_touch)
  show ?thesis using a b c by blast
qed

theorem touch_events_between_0_and_10_witness:
  "touch_events_last_min (vitality (fst (generateReading (Some 30)
         \<lparr>clockNow = 1000, rMoisture = 0.5, rTrendChange = 0.5, rTrendDir = 0.5,
          rStabilize = 0.5, clockTemp = 1000, rTemp = 0.5, rSoilTemp = 0.5, rHumidity = 0.5,
          clockLight = 1000, rLight = 0.5, rTouch = 0.5, rTouchCap = 0.5, rDecay = 0.5\<rparr>
         (newPlantHealthSimulator ''plant01'' ''Monstera'' ''living_room''
           \<lparr>iTemperature = 0.5, iHumidity = 0.5, iLight = 0.5, iMoisture = 0.5,
              iSoilTemp = 0.5\<rparr>)))) = 1"
  using touch_events_between_0_and_10
    [of "[(Some 30, \<lparr>clockNow = 1000, rMoisture = 0.5, rTrendChange = 0.5, rTrendDir = 0.5,
          rStabilize = 0.5, clockTemp = 1000, rTemp = 0.5, rSoilTemp = 0.5, rHumidity = 0.5,
          clockLight = 1000, rLight = 0.5, rTouch = 0.5, rTouchCap = 0.5, rDecay = 0.5\<rparr>)]"
        "''plant01''" "''Monstera''" "''living_room''"
        "\<lparr>iTemperature = 0.5, iHumidity = 0.5, iLight = 0.5, iMoisture = 0.5,
              iSoilTemp = 0.5\<rparr>"
        "Some 30"
        "\<lparr>clockNow = 1000, rMoisture = 0.5, rTrendChange = 0.5, rTrendDir = 0.5,
          rStabilize = 0.5, clockTemp = 1000, rTemp = 0.5, rSoilTemp = 0.5, rHumidity = 0.5,
          clockLight = 1000, rLight = 0.5, rTouch = 0.5, rTouchCap = 0.5, rDecay = 0.5\<rparr>"
        "(newPlantHealthSimulator ''plant01'' ''Monstera'' ''living_room''
           \<lparr>iTemperature = 0.5, iHumidity = 0.5, iLight = 0.5, iMoisture = 0.5,
              iSoilTemp = 0.5\<rparr>)"]
  by (simp add: touched_def touchOk_def newPlantHealthSimulator_touchEvents)

section \<open>Interaction controller: results\<close>















section \<open>Text generation: results\<close>

lemma tryModels_returns:
  "tryModels gen ms le = Inr r \<Longrightarrow>
   \<exists>m\<in>set ms. \<exists>t. gen m = Generated t \<and> t \<noteq> [] \<and> r = shortenText t"
  by (induction ms arbitrary: le) (auto split: ModelOutcome.splits if_splits)

lemma attemptOnce_returns:
  "attemptOnce env = Inr r \<Longrightarrow>
   prefix ''(System: '' r \<or>
   (\<exists>m t. generateContent env m = Generated t \<and> t \<noteq> [] \<and> r = shortenText t)"
  by (auto simp add: attemptOnce_def split: option.splits if_splits dest: tryModels_returns)

lemma retryLoop_returns:
  "retryLoop world attempt le = Inl r \<Longrightarrow>
   prefix ''(System: '' r \<or>
   (\<exists>a m t. a \<le> MAX_RETRIES \<and> generateContent (world a) m = Generated t \<and> t \<noteq> [] \<and>
            r = shortenText t)"
proof (induction world attempt le rule: retryLoop.induct)
  case (1 world attempt lastError)
  show ?case
  proof (cases "attemptOnce (world attempt)")
    case (Inr returned)
    with "1.prems" have r: "returned = r" and a: "attempt \<le> MAX_RETRIES"
      by (simp_all split: if_splits)
    from attemptOnce_returns [OF Inr] show ?thesis using r a by blast
  next
    case (Inl error)
    with "1.prems" have
      "attempt \<le> MAX_RETRIES \<and> \<not> noRetry (toLowerCase (errorText error)) \<and>
       attempt < MAX_RETRIES \<and> retriable (toLowerCase (errorText error)) \<and>
       retryLoop world (attempt + 1) (Some error) = Inl r"
      by (simp add: Let_def split: if_splits)
    then show ?thesis using "1.IH" [OF _ Inl] by blast
  qed
qed

lemma finalMessage_prefix: "prefix ''(System: '' (finalMessage le)"
  by (simp add: finalMessage_def Let_def)

lemma generatePlantResponse_cases:
  "prefix ''(System: '' (generatePlantResponse world) \<or>
   (\<exists>a m t. a \<le> MAX_RETRIES \<and> generateContent (world a) m = Generated t \<and> t \<noteq> [] \<and>
            generatePlantResponse world = shortenText t)"
proof (cases "retryLoop world 0 None")
  case (Inl r)
  then have "generatePlantResponse world = r" by (simp add: generatePlantResponse_def)
  with retryLoop_returns [OF Inl] show ?thesis by simp
next
  case (Inr le)
  then have "generatePlantResponse world = finalMessage le"
    by (simp add: generatePlantResponse_def)
  then show ?thesis by (simp add: finalMessage_prefix)
qed

text \<open>
  \<open>generatePlantResponse\<close> surfaces every failure: when no model produces a text in any
  attempt (key missing, invalid key, quota or rate limit, network), the function
  returns a \<open>(System: ...)\<close> text.
\<close>

lemma plant_response_failure_is_system_text:
  "\<forall>a m t. a \<le> MAX_RETRIES \<and> generateContent (world a) m = Generated t \<longrightarrow> t = [] \<Longrightarrow>
   prefix ''(System: '' (generatePlantResponse world)"
  using generatePlantResponse_cases [of world] by blast

lemma companion_failure_is_fallback:
  "generateCompanionResponse (ApiThrew e) = companionFallback"
  by (simp add: generateCompanionResponse_def)

text \<open>
  The events of \<open>processInteraction\<close> only append to the history. (The history is also
  written outside \<open>processInteraction\<close>: \<open>toggleSession\<close> appends a message, and
  \<open>handleModeSwitch\<close> empties the history when MUSIC mode is selected; these are not
  events of this model.)
\<close>

lemma processInteraction_messages:
  "messages (processInteraction cl msg type ov now c) =
     (if \<not> (seenProcessing cl \<and> type \<noteq> SYSTEM) \<and> type = USER
      then messages c @ [\<lparr>role = RoleUser, text' = msg\<rparr>]
      else messages c)"
  by (simp add: processInteraction_def Let_def)

lemma finishInteraction_messages: "messages (finishInteraction i now c) = messages c"
  by (simp add: finishInteraction_def Let_def)

lemma step_messages_prefix: "prefix (messages c) (messages (step ev c))"
proof (cases ev)
  case (ProcessInteraction cl msg ty ov tm)
  then show ?thesis by (simp add: processInteraction_messages)
next
  case (GenerationSettles i w tm)
  then show ?thesis
    by (simp add: generationSettles_def finishInteraction_messages Let_def)
next
  case (InteractionThrows i)
  then show ?thesis by (simp add: interactionThrows_def)
next
  case (SpeechEnds i tm)
  then show ?thesis by (simp add: speechEnds_def finishInteraction_messages)
qed

lemma run_messages_prefix: "prefix (messages c) (messages (runEvents evs c))"
proof (induction evs arbitrary: c)
  case Nil
  then show ?case by simp
next
  case (Cons ev evs)
  have "prefix (messages c) (messages (step ev c))" by (rule step_messages_prefix)
  also have "prefix (messages (step ev c)) (messages (runEvents evs (step ev c)))" by (rule Cons.IH)
  finally show ?case by simp
qed

lemma forbidden_final_message:
  "finalMessage (Some (newError ''Gemini API error: Forbidden''))
     = ''(System: Gemini API error: Forbidden)''"
  by code_simp

lemma forbidden_plant_response:
  "generatePlantResponse
     (\<lambda>a. \<lparr>apiKey = Some ''k'', availableModels = [],
           generateContent = (\<lambda>m. Threw (newError ''Gemini API error: Forbidden''))\<rparr>)
   = ''(System: Gemini API error: Forbidden)''"
  by code_simp

text \<open>
  C8. For every failing text-generation call the claim expects an in-band
  \<open>(System: ...)\<close> text appended to the history as a model turn, with the user's own
  message kept. The code is evaluated on a user message \<open>hello\<close> whose generation
  request fails with the error \<open>Gemini API error: Forbidden\<close>. While a health insight
  is present the controller takes the health-aware path: the user's message is kept,
  but the model turn appended is the fixed companion sentence, which is no
  \<open>(System: ...)\<close> text and does not tell the failure. Without a health insight the
  same failure goes through \<open>generatePlantResponse\<close> and is appended as
  \<open>(System: Gemini API error: Forbidden)\<close>.
\<close>

theorem companion_failure_hides_error:
  "map text' (messages
     (runEvents
        [ProcessInteraction
           \<lparr>seenProcessing = False, seenMessages = [], seenHealthInsight = True,
            seenMode = MUSIC\<rparr>
           ''hello'' USER None 0,
         GenerationSettles 0
           \<lparr>plantWorld = (\<lambda>a. \<lparr>apiKey = Some ''k'', availableModels = [],
              generateContent = (\<lambda>m. Threw (newError ''Gemini API error: Forbidden''))\<rparr>),
            companionOutcome = ApiThrew (newError ''Gemini API error: Forbidden'')\<rparr> 1]
        (initialController\<lparr>isRecordingRef := True, hasHealthInsight := True\<rparr>)))
     = [''hello'', ''I'm here and listening! How are you doing today?''] \<and>
   \<not> prefix ''(System: '' ''I'm here and listening! How are you doing today?'' \<and>
   map text' (messages
     (runEvents
        [ProcessInteraction
           \<lparr>seenProcessing = False, seenMessages = [], seenHealthInsight = False,
            seenMode = MUSIC\<rparr>
           ''hello'' USER None 0,
         GenerationSettles 0
           \<lparr>plantWorld = (\<lambda>a. \<lparr>apiKey = Some ''k'', availableModels = [],
              generateContent = (\<lambda>m. Threw (newError ''Gemini API error: Forbidden''))\<rparr>),
            companionOutcome = ApiThrew (newError ''Gemini API error: Forbidden'')\<rparr> 1]
        (initialController\<lparr>isRecordingRef := True\<rparr>)))
     = [''hello'', ''(System: Gemini API error: Forbidden)'']"
  by (simp add: generateCompanionResponse_def companionFallback_def generationSettles_def
      finishInteraction_def processInteraction_def initialController_def Let_def
      forbidden_plant_response)

end
